theory Spec2Isabelle
  imports Main "HOL-Library.AList"
begin

section \<open>Values, payloads and time\<close>

text \<open>
  An instant (\<open>datetime\<close>) is a number of microseconds since the epoch, a duration
  (\<open>timedelta\<close>) a number of microseconds: the resolution of both Python types. A
  \<open>datetime\<close> lies between \<open>datetime.min\<close> (the start of year 1) and \<open>datetime.max\<close>
  (the last microsecond of year 9999). A claims dictionary is an association list in
  insertion order, as a Python \<open>dict\<close> is; the values that occur are \<open>None\<close>, strings,
  integers and instants.
\<close>

type_synonym datetime = int
type_synonym timedelta = int

text \<open>\<open>timedelta(seconds=n)\<close>.\<close>

definition seconds :: "int \<Rightarrow> timedelta" where
  "seconds n = 1000000 * n"

definition datetime_min :: datetime where
  "datetime_min = seconds (- 62135596800)"

definition datetime_max :: datetime where
  "datetime_max = seconds 253402300800 - 1"

definition in_datetime_range :: "int \<Rightarrow> bool" where
  "in_datetime_range t \<longleftrightarrow> datetime_min \<le> t \<and> t \<le> datetime_max"

text \<open>
  The whole seconds since the epoch of an instant, the microseconds dropped: the number
  PyJWT writes for a \<open>datetime\<close> under \<open>exp\<close>, and the second a clock reading falls in.
\<close>

definition numeric_date :: "datetime \<Rightarrow> int" where
  "numeric_date t = t div 1000000"

datatype pyval = PyNone | PyStr string | PyInt int | PyDatetime datetime

type_synonym payload = "(string \<times> pyval) list"

text \<open>\<open>d.get(k)\<close>: the value stored under \<open>k\<close>, or \<open>None\<close>.\<close>

definition dict_get :: "payload \<Rightarrow> string \<Rightarrow> pyval" where
  "dict_get d k = (case map_of d k of None \<Rightarrow> PyNone | Some v \<Rightarrow> v)"

text \<open>\<open>timedelta(minutes=n)\<close>.\<close>

definition timedelta_minutes :: "int \<Rightarrow> timedelta" where
  "timedelta_minutes n = seconds (60 * n)"

text \<open>
  \<open>s.split(sep)\<close> for a separator of one character: every occurrence of the separator
  ends a field, so the result is never empty and adjacent separators give empty fields.
\<close>

fun split_str :: "char \<Rightarrow> string \<Rightarrow> string list" where
  "split_str sep [] = [[]]"
| "split_str sep (c # cs) =
     (if c = sep then [] # split_str sep cs
      else (case split_str sep cs of
              w # ws \<Rightarrow> (c # w) # ws
            | [] \<Rightarrow> [[c]]))"

section \<open>Exceptions\<close>

text \<open>
  The exceptions that can leave the functions of \<open>auth.py\<close>: the \<open>HTTPException\<close>s it
  raises (status code, detail, headers), the \<open>IndexError\<close> of a list index out of range and
  the \<open>OverflowError\<close> of a date out of range.
  The subclasses of \<open>jwt.PyJWTError\<close> are a type of their own: they are what the JWT
  library raises and what the \<open>except\<close> clause of \<open>get_current_user\<close> catches.
\<close>

datatype exn =
  HTTPException nat string "(string \<times> string) list" | IndexError | OverflowError

datatype pyjwt_error =
  DecodeError | InvalidSignatureError | ExpiredSignatureError
  | InvalidAlgorithmError | InvalidKeyError

text \<open>\<open>xs[1]\<close>.\<close>

definition index1 :: "'a list \<Rightarrow> exn + 'a" where
  "index1 xs = (case xs of _ # x # _ \<Rightarrow> Inr x | _ \<Rightarrow> Inl IndexError)"

text \<open>
  \<open>t + d\<close> for a \<open>datetime\<close> and a \<open>timedelta\<close>: Python raises \<open>OverflowError\<close> when the
  sum is not a \<open>datetime\<close>.
\<close>

definition datetime_add :: "datetime \<Rightarrow> timedelta \<Rightarrow> exn + datetime" where
  "datetime_add t d = (if in_datetime_range (t + d) then Inr (t + d) else Inl OverflowError)"

section \<open>The JWT library, a parameter\<close>

text \<open>
  \<open>jwt.encode(payload, key, algorithm)\<close> and \<open>jwt.decode(token, key, algorithms)\<close> belong
  to the PyJWT library, not to the repository. The functions of \<open>auth.py\<close> take them as
  parameters; \<open>jwt.decode\<close> reads the clock to check \<open>exp\<close>, so its model takes the
  current instant as a last argument. \<open>jwt.encode\<close> returns a token or raises, and
  \<open>create_access_token\<close> lets what it raises pass.
\<close>

type_synonym jwt_encode = "payload \<Rightarrow> string \<Rightarrow> string \<Rightarrow> exn + string"
type_synonym jwt_decode =
  "string \<Rightarrow> string \<Rightarrow> string list \<Rightarrow> datetime \<Rightarrow> pyjwt_error + payload"

text \<open>
  What the functions below rely on, for a payload of the shape \<open>main.py\<close> issues
  (\<open>{"sub": s}\<close> with \<open>exp\<close> added): \<open>jwt.encode\<close> returns a token, which holds no space;
  PyJWT writes \<open>exp\<close> as \<open>numeric_date\<close> of the instant, and \<open>jwt.decode\<close> of that token
  under the same key and algorithm compares this number with the clock (\<open>exp <= now\<close> is
  expired): it returns the claims while the clock is in a second before \<open>exp\<close>, and raises
  \<open>ExpiredSignatureError\<close> from the second \<open>exp\<close> on.
\<close>

definition pyjwt_contract :: "jwt_encode \<Rightarrow> jwt_decode \<Rightarrow> bool" where
  "pyjwt_contract enc dec \<longleftrightarrow>
     (\<forall>s e key alg. \<exists>tok.
        enc [(''sub'', PyStr s), (''exp'', PyDatetime e)] key alg = Inr tok \<and>
        CHR '' '' \<notin> set tok \<and>
        (\<forall>now.
           (numeric_date now < numeric_date e \<longrightarrow>
              dec tok key [alg] now = Inr [(''sub'', PyStr s), (''exp'', PyInt (numeric_date e))]) \<and>
           (numeric_date e \<le> numeric_date now \<longrightarrow>
              dec tok key [alg] now = Inl ExpiredSignatureError)))"

section \<open>auth.py\<close>

text \<open>
  The module binds \<open>SECRET_KEY\<close> and \<open>ALGORITHM\<close> at import. The functions below read the
  key through a parameter \<open>key\<close>, so that a statement can speak of any binding of the
  global; \<open>SECRET_KEY\<close> is the binding of the source.
\<close>

definition SECRET_KEY :: string where
  "SECRET_KEY = ''YOUR_SECRET_KEY''"

definition ALGORITHM :: string where
  "ALGORITHM = ''HS256''"

text \<open>
  \<open>create_access_token(data, expires_delta=None)\<close>; \<open>utcnow\<close> is the value of
  \<open>datetime.utcnow()\<close> at the call. The guard \<open>if expires_delta:\<close> is Python truthiness:
  \<open>None\<close> and the zero duration are both false. The sum that gives \<open>expire\<close> can raise
  \<open>OverflowError\<close>; then nothing is encoded.
\<close>

definition create_access_token ::
  "jwt_encode \<Rightarrow> string \<Rightarrow> datetime \<Rightarrow> payload \<Rightarrow> timedelta option \<Rightarrow> exn + string"
where
  "create_access_token jwt_enc key utcnow data expires_delta =
     (case (case expires_delta of
              Some d \<Rightarrow>
                if d \<noteq> 0 then datetime_add utcnow d
                else datetime_add utcnow (timedelta_minutes 15)
            | None \<Rightarrow> datetime_add utcnow (timedelta_minutes 15)) of
        Inl e \<Rightarrow> Inl e
      | Inr expire \<Rightarrow>
          (let to_encode = AList.update ''exp'' (PyDatetime expire) data
           in jwt_enc to_encode key ALGORITHM))"

section \<open>crud.py\<close>

text \<open>
  A row of the \<open>User\<close> table, with the columns \<open>create_user\<close> fills. The table is the
  list of its rows in insertion order.
\<close>

record user =
  username :: string
  email :: string
  password :: string

type_synonym db = "user list"

text \<open>
  \<open>get_user_by_email\<close>: the first row whose \<open>email\<close> column equals the argument. The
  argument is whatever the caller passes; a value that is not a string equals no column.
\<close>

definition get_user_by_email :: "db \<Rightarrow> pyval \<Rightarrow> user option" where
  "get_user_by_email d e = find (\<lambda>u. PyStr (email u) = e) d"

text \<open>
  \<open>pwd_context.hash\<close> and \<open>pwd_context.verify\<close> belong to passlib and are parameters.
  \<open>create_user\<close> returns the new row and the table after the commit.
\<close>

definition create_user ::
  "(string \<Rightarrow> string) \<Rightarrow> db \<Rightarrow> string \<Rightarrow> string \<Rightarrow> string \<Rightarrow> user \<times> db" where
  "create_user pwd_hash d uname mail pw =
     (let hashed_password = pwd_hash pw;
          u = \<lparr>username = uname, email = mail, password = hashed_password\<rparr>
      in (u, d @ [u]))"

definition authenticate_user ::
  "(string \<Rightarrow> string \<Rightarrow> bool) \<Rightarrow> db \<Rightarrow> string \<Rightarrow> string \<Rightarrow> user option" where
  "authenticate_user pwd_verify d mail pw =
     (case get_user_by_email d (PyStr mail) of
        Some u \<Rightarrow> if pwd_verify pw (password u) then Some u else None
      | None \<Rightarrow> None)"

section \<open>get_current_user\<close>

record request =
  cookies :: "string \<rightharpoonup> string"

definition not_authenticated :: exn where
  "not_authenticated =
     HTTPException 401 ''Not authenticated'' [(''WWW-Authenticate'', ''Bearer'')]"

definition credentials_exception :: exn where
  "credentials_exception =
     HTTPException 401 ''Could not validate credentials'' [(''WWW-Authenticate'', ''Bearer'')]"

text \<open>
  The \<open>try\<close> block of \<open>get_current_user\<close> (lines 38 to 45): it yields the value of the
  \<open>sub\<close> claim. The index into the split cookie is inside the block, but the \<open>except\<close>
  clause catches \<open>jwt.PyJWTError\<close> only, so its \<open>IndexError\<close> leaves the function.
\<close>

definition get_current_user_try ::
  "jwt_decode \<Rightarrow> string \<Rightarrow> datetime \<Rightarrow> string \<Rightarrow> exn + pyval" where
  "get_current_user_try jwt_dec key now token =
     (case index1 (split_str CHR '' '' token) of
        Inl e \<Rightarrow> Inl e
      | Inr token' \<Rightarrow>
          (case jwt_dec token' key [ALGORITHM] now of
             Inl err \<Rightarrow> Inl credentials_exception
           | Inr payload \<Rightarrow>
               (let mail = dict_get payload ''sub''
                in if mail = PyNone then Inl credentials_exception else Inr mail)))"

definition get_current_user ::
  "jwt_decode \<Rightarrow> string \<Rightarrow> db \<Rightarrow> datetime \<Rightarrow> request \<Rightarrow> exn + user" where
  "get_current_user jwt_dec key d now req =
     (case cookies req ''access_token'' of
        None \<Rightarrow> Inl not_authenticated
      | Some token \<Rightarrow>
          if token = [] then Inl not_authenticated
          else
            (case get_current_user_try jwt_dec key now token of
               Inl e \<Rightarrow> Inl e
             | Inr mail \<Rightarrow>
                 (case get_user_by_email d mail of
                    None \<Rightarrow> Inl credentials_exception
                  | Some u \<Rightarrow> Inr u)))"

section \<open>Stand-ins for the libraries\<close>

text \<open>
  To run the model on concrete requests, the library parameters need values. The stand-in
  for PyJWT writes a token as fields joined by dots: the key, the algorithm, then each
  claim's name and value. A string is written with two letters of \<open>a\<close> to \<open>p\<close> for each
  character, so that no field holds a dot or a space; an integer in decimal with its sign; an
  instant as its \<open>numeric_date\<close>, as PyJWT does for \<open>exp\<close>. The key stands in the token
  where a signature would: the stand-in keeps nothing secret, it only meets
  \<open>pyjwt_contract\<close>.
\<close>

definition nibble :: "nat \<Rightarrow> char" where
  "nibble n = char_of (97 + n)"

definition unnibble :: "char \<Rightarrow> nat" where
  "unnibble c = of_char c - 97"

definition armor :: "string \<Rightarrow> string" where
  "armor s = concat (map (\<lambda>c. [nibble (of_char c div 16), nibble (of_char c mod 16)]) s)"

fun unarmor :: "string \<Rightarrow> string" where
  "unarmor (a # b # r) = char_of (unnibble a * 16 + unnibble b) # unarmor r"
| "unarmor _ = []"

fun nat_digits :: "nat \<Rightarrow> string" where
  "nat_digits n =
     (if n < 10 then [char_of (48 + n)] else nat_digits (n div 10) @ [char_of (48 + n mod 10)])"

definition digits_nat :: "string \<Rightarrow> nat" where
  "digits_nat s = foldl (\<lambda>a c. 10 * a + (of_char c - 48)) 0 s"

definition int_field :: "int \<Rightarrow> string" where
  "int_field i =
     (if i < 0 then CHR ''-'' # nat_digits (nat (- i)) else CHR ''+'' # nat_digits (nat i))"

definition field_int :: "string \<Rightarrow> int" where
  "field_int s =
     (case s of
        [] \<Rightarrow> 0
      | c # ds \<Rightarrow> if c = CHR ''-'' then - int (digits_nat ds) else int (digits_nat ds))"

fun val_field :: "pyval \<Rightarrow> string" where
  "val_field PyNone = ''n''"
| "val_field (PyStr s) = CHR ''s'' # armor s"
| "val_field (PyInt i) = CHR ''i'' # int_field i"
| "val_field (PyDatetime t) = CHR ''i'' # int_field (numeric_date t)"

definition field_val :: "string \<Rightarrow> pyval" where
  "field_val f =
     (case f of
        [] \<Rightarrow> PyNone
      | c # r \<Rightarrow>
          if c = CHR ''s'' then PyStr (unarmor r)
          else if c = CHR ''i'' then PyInt (field_int r)
          else PyNone)"

fun join_fields :: "string list \<Rightarrow> string" where
  "join_fields [] = []"
| "join_fields [f] = f"
| "join_fields (f # g # fs) = f @ CHR ''.'' # join_fields (g # fs)"

fun claim_fields :: "payload \<Rightarrow> string list" where
  "claim_fields [] = []"
| "claim_fields ((k, v) # p) = armor k # val_field v # claim_fields p"

fun fields_payload :: "string list \<Rightarrow> payload option" where
  "fields_payload [] = Some []"
| "fields_payload [k] = None"
| "fields_payload (k # v # r) =
     (case fields_payload r of
        None \<Rightarrow> None
      | Some p \<Rightarrow> Some ((unarmor k, field_val v) # p))"

definition stub_encode :: jwt_encode where
  "stub_encode p key alg = Inr (join_fields (armor key # armor alg # claim_fields p))"

definition stub_decode :: jwt_decode where
  "stub_decode tok key algs now =
     (case split_str CHR ''.'' tok of
        kf # af # rest \<Rightarrow>
          if kf \<noteq> armor key then Inl InvalidSignatureError
          else if unarmor af \<notin> set algs then Inl InvalidAlgorithmError
          else
            (case fields_payload rest of
               None \<Rightarrow> Inl DecodeError
             | Some p \<Rightarrow>
                 (case map_of p ''exp'' of
                    None \<Rightarrow> Inr p
                  | Some (PyInt e) \<Rightarrow>
                      if e \<le> numeric_date now then Inl ExpiredSignatureError else Inr p
                  | Some _ \<Rightarrow> Inl DecodeError))
      | _ \<Rightarrow> Inl DecodeError)"

text \<open>The claims as \<open>stub_decode\<close> returns them: an instant has become its number.\<close>

fun decoded :: "payload \<Rightarrow> payload" where
  "decoded [] = []"
| "decoded ((k, PyDatetime t) # p) = (k, PyInt (numeric_date t)) # decoded p"
| "decoded ((k, v) # p) = (k, v) # decoded p"

text \<open>
  The stand-in for passlib marks a password instead of hashing it. The row \<open>bob\<close> is the
  user of the spec's scenario, as \<open>create_user\<close> stores it with this stand-in; the row
  \<open>ghost\<close> is a user whose email is the empty string.
\<close>

definition stub_hash :: "string \<Rightarrow> string" where
  "stub_hash pw = ''$stub$'' @ pw"

definition stub_verify :: "string \<Rightarrow> string \<Rightarrow> bool" where
  "stub_verify pw h \<longleftrightarrow> h = ''$stub$'' @ pw"

definition bob :: user where
  "bob = \<lparr>username = ''bob'', email = ''b@x.com'', password = stub_hash ''pw1''\<rparr>"

definition ghost :: user where
  "ghost = \<lparr>username = ''ghost'', email = '''', password = stub_hash ''pw''\<rparr>"

section \<open>Basic facts\<close>

lemma numeric_date_seconds [simp]: "numeric_date (seconds n) = n"
  by (simp add: numeric_date_def seconds_def)

lemma numeric_date_mono: "a \<le> b \<Longrightarrow> numeric_date a \<le> numeric_date b"
  by (simp add: numeric_date_def zdiv_mono1)


lemma create_access_token_eq:
  "create_access_token enc key iat data dl =
     (if in_datetime_range (iat + (case dl of Some x \<Rightarrow> if x \<noteq> 0 then x else seconds 900 | None \<Rightarrow> seconds 900))
      then enc (AList.update ''exp''
                  (PyDatetime (iat + (case dl of Some x \<Rightarrow> if x \<noteq> 0 then x else seconds 900 | None \<Rightarrow> seconds 900)))
                  data) key ALGORITHM
      else Inl OverflowError)"
  by (simp add: create_access_token_def datetime_add_def timedelta_minutes_def
      split: option.splits)

lemma dict_get_update: "dict_get (AList.update k v d) k = v"
  by (simp add: dict_get_def update_conv')

lemma split_str_no_sep: "sep \<notin> set f \<Longrightarrow> split_str sep f = [f]"
  by (induction f) auto

lemma split_str_field: "sep \<notin> set f \<Longrightarrow> split_str sep (f @ sep # r) = f # split_str sep r"
  by (induction f) auto

lemma split_str_nonempty: "split_str sep s \<noteq> []"
  by (induction s) (auto split: list.splits)

section \<open>The stand-ins meet the contract\<close>

lemma of_char_nibble: "n < 16 \<Longrightarrow> of_char (nibble n) = 97 + n"
  by (simp add: nibble_def)

lemma unnibble_nibble: "n < 16 \<Longrightarrow> unnibble (nibble n) = n"
  by (simp add: unnibble_def of_char_nibble)

lemma char_hi: "(of_char (c::char) :: nat) div 16 < 16"
proof -
  have "(of_char c :: nat) < 256" by simp
  then show ?thesis by linarith
qed

lemma unarmor_armor: "unarmor (armor s) = s"
  by (induction s) (simp_all add: armor_def unnibble_nibble char_hi)

lemma armor_range:
  "c \<in> set (armor s) \<Longrightarrow> 97 \<le> (of_char c :: nat) \<and> (of_char c :: nat) < 113"
  by (induction s) (auto simp: armor_def of_char_nibble char_hi)

lemma armor_no_sep: "CHR '' '' \<notin> set (armor s)" "CHR ''.'' \<notin> set (armor s)"
  using armor_range [of "CHR '' ''" s] armor_range [of "CHR ''.''" s] by auto

declare nat_digits.simps [simp del]

lemma digits_nat_digits: "digits_nat (nat_digits n) = n"
proof (induction n rule: nat_digits.induct)
  case (1 n)
  show ?case
  proof (cases "n < 10")
    case True
    then show ?thesis by (simp add: nat_digits.simps [of n] digits_nat_def)
  next
    case False
    with 1 have "digits_nat (nat_digits (n div 10)) = n div 10" by simp
    with False show ?thesis
      by (simp add: nat_digits.simps [of n] digits_nat_def)
  qed
qed

lemma nat_digits_range:
  "c \<in> set (nat_digits n) \<Longrightarrow> 48 \<le> (of_char c :: nat) \<and> (of_char c :: nat) < 58"
proof (induction n rule: nat_digits.induct)
  case (1 n)
  then show ?case
    by (cases "n < 10") (auto simp: nat_digits.simps [of n])
qed

lemma nat_digits_no_sep: "CHR '' '' \<notin> set (nat_digits n)" "CHR ''.'' \<notin> set (nat_digits n)"
  using nat_digits_range [of "CHR '' ''" n] nat_digits_range [of "CHR ''.''" n] by auto

lemma field_int_field: "field_int (int_field i) = i"
  by (cases "i < 0") (simp_all add: field_int_def int_field_def digits_nat_digits)

lemma int_field_no_sep: "CHR '' '' \<notin> set (int_field i)" "CHR ''.'' \<notin> set (int_field i)"
  by (simp_all add: int_field_def nat_digits_no_sep)

lemma val_field_no_sep: "CHR '' '' \<notin> set (val_field v)" "CHR ''.'' \<notin> set (val_field v)"
  by (cases v; simp add: armor_no_sep int_field_no_sep)+

lemma claim_fields_no_sep:
  "f \<in> set (claim_fields p) \<Longrightarrow> CHR '' '' \<notin> set f \<and> CHR ''.'' \<notin> set f"
  by (induction p rule: claim_fields.induct) (auto simp: armor_no_sep val_field_no_sep)

lemma fields_payload_claim_fields: "fields_payload (claim_fields p) = Some (decoded p)"
  by (induction p rule: decoded.induct)
     (simp_all add: unarmor_armor field_val_def field_int_field)

lemma split_str_join:
  "fs \<noteq> [] \<Longrightarrow> \<forall>f\<in>set fs. CHR ''.'' \<notin> set f \<Longrightarrow> split_str CHR ''.'' (join_fields fs) = fs"
proof (induction fs rule: join_fields.induct)
  case 1
  then show ?case by simp
next
  case (2 f)
  then show ?case by (simp add: split_str_no_sep)
next
  case (3 f g fs)
  then show ?case by (simp add: split_str_field)
qed

lemma join_fields_no_space:
  "\<forall>f\<in>set fs. CHR '' '' \<notin> set f \<Longrightarrow> CHR '' '' \<notin> set (join_fields fs)"
  by (induction fs rule: join_fields.induct) auto

lemma stub_encode_no_space: "CHR '' '' \<notin> set (projr (stub_encode p key alg))"
proof -
  have "CHR '' '' \<notin> set (join_fields (armor key # armor alg # claim_fields p))"
    by (rule join_fields_no_space) (auto simp: armor_no_sep claim_fields_no_sep)
  then show ?thesis by (simp add: stub_encode_def)
qed

lemma stub_decode_encode:
  "stub_decode (projr (stub_encode p key alg)) key [alg] now =
     (case map_of (decoded p) ''exp'' of
        None \<Rightarrow> Inr (decoded p)
      | Some (PyInt e) \<Rightarrow>
          if e \<le> numeric_date now then Inl ExpiredSignatureError else Inr (decoded p)
      | Some _ \<Rightarrow> Inl DecodeError)"
proof -
  let ?fs = "armor key # armor alg # claim_fields p"
  have "split_str CHR ''.'' (join_fields ?fs) = ?fs"
    by (rule split_str_join) (auto simp: armor_no_sep claim_fields_no_sep)
  then show ?thesis
    by (simp add: stub_decode_def stub_encode_def unarmor_armor fields_payload_claim_fields
             del: join_fields.simps)
qed

lemma stub_contract: "pyjwt_contract stub_encode stub_decode"
  unfolding pyjwt_contract_def
proof (intro allI)
  fix s e key alg
  let ?p = "[(''sub'', PyStr s), (''exp'', PyDatetime e)]"
  let ?tok = "projr (stub_encode ?p key alg)"
  have "stub_encode ?p key alg = Inr ?tok"
    by (simp add: stub_encode_def)
  moreover have "CHR '' '' \<notin> set ?tok"
    by (rule stub_encode_no_space)
  moreover have "\<forall>now.
           (numeric_date now < numeric_date e \<longrightarrow>
              stub_decode ?tok key [alg] now
                = Inr [(''sub'', PyStr s), (''exp'', PyInt (numeric_date e))]) \<and>
           (numeric_date e \<le> numeric_date now \<longrightarrow>
              stub_decode ?tok key [alg] now = Inl ExpiredSignatureError)"
    by (simp add: stub_decode_encode)
  ultimately show "\<exists>tok. stub_encode ?p key alg = Inr tok \<and>
        CHR '' '' \<notin> set tok \<and>
        (\<forall>now.
           (numeric_date now < numeric_date e \<longrightarrow>
              stub_decode tok key [alg] now
                = Inr [(''sub'', PyStr s), (''exp'', PyInt (numeric_date e))]) \<and>
           (numeric_date e \<le> numeric_date now \<longrightarrow>
              stub_decode tok key [alg] now = Inl ExpiredSignatureError))"
    by blast
qed

lemma stub_split:
  "split_str CHR '' '' (projr (stub_encode p key alg)) = [projr (stub_encode p key alg)]"
  by (rule split_str_no_sep) (rule stub_encode_no_space)

lemma stub_issue:
  "create_access_token stub_encode key iat data dl =
     (if in_datetime_range (iat + (case dl of Some x \<Rightarrow> if x \<noteq> 0 then x else seconds 900 | None \<Rightarrow> seconds 900))
      then Inr (projr (stub_encode
                  (AList.update ''exp''
                     (PyDatetime (iat + (case dl of Some x \<Rightarrow> if x \<noteq> 0 then x else seconds 900 | None \<Rightarrow> seconds 900)))
                     data) key ALGORITHM))
      else Inl OverflowError)"
  by (simp add: create_access_token_eq stub_encode_def)

text \<open>
  The equations that run the model on a concrete request with the stand-ins.
\<close>

lemmas run_simps =
  get_current_user_def get_current_user_try_def index1_def stub_issue stub_split
  stub_decode_encode dict_get_def get_user_by_email_def bob_def
  seconds_def numeric_date_def in_datetime_range_def datetime_min_def datetime_max_def

section \<open>The cookie and the token\<close>

lemma index1_prefixed:
  "CHR '' '' \<notin> set w \<Longrightarrow>
     index1 (split_str CHR '' '' (w @ CHR '' '' # r)) = Inr (hd (split_str CHR '' '' r))"
  using split_str_nonempty [of "CHR '' ''" r]
  by (cases "split_str CHR '' '' r") (simp_all add: split_str_field index1_def)

lemma index1_no_space:
  "CHR '' '' \<notin> set token \<Longrightarrow> index1 (split_str CHR '' '' token) = Inl IndexError"
  by (simp add: split_str_no_sep index1_def)

lemma index1_space:
  assumes "CHR '' '' \<in> set token"
  shows "\<exists>t. index1 (split_str CHR '' '' token) = Inr t"
proof -
  from assms obtain w r where "token = w @ CHR '' '' # r" and "CHR '' '' \<notin> set w"
    by (meson split_list_first)
  then show ?thesis by (simp add: index1_prefixed)
qed

lemma try_decoded:
  "index1 (split_str CHR '' '' token) = Inr t \<Longrightarrow>
   get_current_user_try dec key now token =
     (case dec t key [ALGORITHM] now of
        Inl err \<Rightarrow> Inl credentials_exception
      | Inr p \<Rightarrow> if dict_get p ''sub'' = PyNone then Inl credentials_exception
                 else Inr (dict_get p ''sub''))"
  by (simp add: get_current_user_try_def Let_def split: sum.splits)

lemma try_bearer:
  "CHR '' '' \<notin> set tok \<Longrightarrow>
   get_current_user_try dec key now (''Bearer '' @ tok) =
     (case dec tok key [ALGORITHM] now of
        Inl err \<Rightarrow> Inl credentials_exception
      | Inr p \<Rightarrow> if dict_get p ''sub'' = PyNone then Inl credentials_exception
                 else Inr (dict_get p ''sub''))"
proof -
  assume ns: "CHR '' '' \<notin> set tok"
  have "index1 (split_str CHR '' '' (''Bearer'' @ CHR '' '' # tok)) = Inr (hd (split_str CHR '' '' tok))"
    by (rule index1_prefixed) simp
  with ns have "index1 (split_str CHR '' '' (''Bearer '' @ tok)) = Inr tok"
    by (simp add: split_str_no_sep)
  then show ?thesis by (rule try_decoded)
qed

lemma current_user_cookie:
  "token \<noteq> [] \<Longrightarrow>
   get_current_user dec key d now \<lparr>cookies = c(''access_token'' \<mapsto> token)\<rparr> =
     (case get_current_user_try dec key now token of
        Inl e \<Rightarrow> Inl e
      | Inr mail \<Rightarrow>
          (case get_user_by_email d mail of
             None \<Rightarrow> Inl credentials_exception
           | Some u \<Rightarrow> Inr u))"
  by (simp add: get_current_user_def)

lemma current_user_cong:
  "token \<noteq> [] \<Longrightarrow> token' \<noteq> [] \<Longrightarrow>
   get_current_user_try dec key now token = get_current_user_try dec key now token' \<Longrightarrow>
   get_current_user dec key d now \<lparr>cookies = c(''access_token'' \<mapsto> token)\<rparr>
     = get_current_user dec key d now \<lparr>cookies = c(''access_token'' \<mapsto> token')\<rparr>"
  by (simp add: current_user_cookie)

lemma issued:
  assumes "pyjwt_contract enc dec"
    and "in_datetime_range (iat + (case dl of Some x \<Rightarrow> if x \<noteq> 0 then x else seconds 900 | None \<Rightarrow> seconds 900))"
  shows "\<exists>tok. create_access_token enc key iat [(''sub'', PyStr s)] dl = Inr tok \<and>
           CHR '' '' \<notin> set tok \<and>
           (\<forall>now.
              (numeric_date now
                 < numeric_date (iat + (case dl of Some x \<Rightarrow> if x \<noteq> 0 then x else seconds 900 | None \<Rightarrow> seconds 900)) \<longrightarrow>
                 dec tok key [ALGORITHM] now =
                   Inr [(''sub'', PyStr s),
                        (''exp'', PyInt (numeric_date (iat + (case dl of Some x \<Rightarrow> if x \<noteq> 0 then x else seconds 900 | None \<Rightarrow> seconds 900))))]) \<and>
              (numeric_date (iat + (case dl of Some x \<Rightarrow> if x \<noteq> 0 then x else seconds 900 | None \<Rightarrow> seconds 900))
                 \<le> numeric_date now \<longrightarrow>
                 dec tok key [ALGORITHM] now = Inl ExpiredSignatureError))"
proof -
  let ?e = "iat + (case dl of Some x \<Rightarrow> if x \<noteq> 0 then x else seconds 900 | None \<Rightarrow> seconds 900)"
  have "create_access_token enc key iat [(''sub'', PyStr s)] dl =
          enc [(''sub'', PyStr s), (''exp'', PyDatetime ?e)] key ALGORITHM"
    using assms(2) by (simp add: create_access_token_eq)
  moreover from assms(1)
  have "\<exists>tok. enc [(''sub'', PyStr s), (''exp'', PyDatetime ?e)] key ALGORITHM = Inr tok \<and>
          CHR '' '' \<notin> set tok \<and>
          (\<forall>now.
             (numeric_date now < numeric_date ?e \<longrightarrow>
                dec tok key [ALGORITHM] now
                  = Inr [(''sub'', PyStr s), (''exp'', PyInt (numeric_date ?e))]) \<and>
             (numeric_date ?e \<le> numeric_date now \<longrightarrow>
                dec tok key [ALGORITHM] now = Inl ExpiredSignatureError))"
    unfolding pyjwt_contract_def by blast
  ultimately show ?thesis by simp
qed

lemma not_issued:
  "\<not> in_datetime_range (iat + (case dl of Some x \<Rightarrow> if x \<noteq> 0 then x else seconds 900 | None \<Rightarrow> seconds 900)) \<Longrightarrow>
   create_access_token enc key iat data dl = Inl OverflowError"
  by (simp add: create_access_token_eq)

lemma get_current_user_failures:
  "get_current_user dec key d now req = Inl e \<Longrightarrow>
   e = not_authenticated \<or> e = credentials_exception \<or> e = IndexError"
  by (auto simp: get_current_user_def get_current_user_try_def index1_def Let_def
      split: option.splits if_splits sum.splits list.splits)

lemma get_user_by_email_Some:
  "get_user_by_email d (PyStr mail) = Some u \<Longrightarrow> u \<in> set d \<and> email u = mail"
  by (auto simp: get_user_by_email_def find_Some_iff)

lemma get_user_by_email_None:
  "get_user_by_email d (PyStr mail) = None \<longleftrightarrow> (\<forall>x\<in>set d. email x \<noteq> mail)"
  by (auto simp: get_user_by_email_def find_None_iff)

lemma get_user_by_email_fresh:
  "\<forall>x\<in>set d. email x \<noteq> mail \<Longrightarrow> email u = mail \<Longrightarrow>
   get_user_by_email (d @ [u]) (PyStr mail) = Some u"
  by (induction d) (auto simp: get_user_by_email_def)

section \<open>Token validation and the cookie prefix\<close>

text \<open>
  C1, as amended. The claim asks that a cookie value without a well-formed \<open>"Bearer "\<close>
  prefix fails with the 401 "Could not validate credentials". The code never looks at the
  leading word. What holds: for every cookie value that holds a space, the text between the
  first and the second space is handed to \<open>jwt.decode\<close>, and validation ends with the 401
  "Could not validate credentials" exactly when \<open>jwt.decode\<close> rejects that text or its
  payload has no \<open>sub\<close>; otherwise it yields the \<open>sub\<close> claim. Neither validation nor
  \<open>get_current_user\<close> ends with an \<open>IndexError\<close> on such a value.
\<close>

theorem spaced_cookie_validation:
  assumes "CHR '' '' \<in> set token"
  shows "\<exists>t. index1 (split_str CHR '' '' token) = Inr t \<and>
           get_current_user_try dec key now token =
             (case dec t key [ALGORITHM] now of
                Inl err \<Rightarrow> Inl credentials_exception
              | Inr p \<Rightarrow> if dict_get p ''sub'' = PyNone then Inl credentials_exception
                         else Inr (dict_get p ''sub'')) \<and>
           get_current_user_try dec key now token \<noteq> Inl IndexError \<and>
           get_current_user dec key d now \<lparr>cookies = c(''access_token'' \<mapsto> token)\<rparr>
             \<noteq> Inl IndexError"
proof -
  from index1_space [OF assms] obtain t where t: "index1 (split_str CHR '' '' token) = Inr t" ..
  have ne: "token \<noteq> []" using assms by auto
  have tr: "get_current_user_try dec key now token =
             (case dec t key [ALGORITHM] now of
                Inl err \<Rightarrow> Inl credentials_exception
              | Inr p \<Rightarrow> if dict_get p ''sub'' = PyNone then Inl credentials_exception
                         else Inr (dict_get p ''sub''))"
    by (rule try_decoded [OF t])
  have n1: "get_current_user_try dec key now token \<noteq> Inl IndexError"
    by (simp add: tr credentials_exception_def split: sum.splits)
  have n2: "get_current_user dec key d now \<lparr>cookies = c(''access_token'' \<mapsto> token)\<rparr>
             \<noteq> Inl IndexError"
    using n1 by (auto simp: current_user_cookie [OF ne] credentials_exception_def
        split: sum.splits option.splits)
  from t tr n1 n2 show ?thesis by blast
qed

text \<open>
  The theorem at the cookie value \<open>Basic abc\<close>: the field \<open>abc\<close> is no token, and
  validation ends with the 401.
\<close>

theorem spaced_cookie_validation_witness:
  "CHR '' '' \<in> set ''Basic abc'' \<and>
   index1 (split_str CHR '' '' ''Basic abc'') = Inr ''abc'' \<and>
   get_current_user_try stub_decode SECRET_KEY (seconds 1000) ''Basic abc'' = Inl credentials_exception"
proof -
  have h: "CHR '' '' \<in> set ''Basic abc''" by simp
  have i: "index1 (split_str CHR '' '' ''Basic abc'') = Inr ''abc''" by (simp add: index1_def)
  have "stub_decode ''abc'' SECRET_KEY [ALGORITHM] (seconds 1000) = Inl DecodeError"
    by (simp add: stub_decode_def)
  with spaced_cookie_validation [OF h, of stub_decode SECRET_KEY "seconds 1000" "[]" Map.empty] h i
  show ?thesis by auto
qed

text \<open>
  Against C1 as stated: the cookie value \<open>abc\<close> holds no space, and the index into the
  split value raises \<open>IndexError\<close>, which no handler catches; the cookie value
  \<open>Basic\<close>, a space and a valid token does not fail at all, it authenticates \<open>bob\<close>.
\<close>

theorem malformed_prefix_counterexample:
  "get_current_user_try stub_decode SECRET_KEY (seconds 1000) ''abc'' = Inl IndexError \<and>
   get_current_user stub_decode SECRET_KEY [bob] (seconds 1000) \<lparr>cookies = [''access_token'' \<mapsto> ''abc'']\<rparr>
     = Inl IndexError \<and>
   get_current_user stub_decode SECRET_KEY [bob] (seconds 1000)
     \<lparr>cookies = [''access_token'' \<mapsto>
        ''Basic '' @ projr (create_access_token stub_encode SECRET_KEY (seconds 1000)
                              [(''sub'', PyStr ''b@x.com'')] None)]\<rparr>
     = Inr bob"
  by (simp add: run_simps)

section \<open>The secret key\<close>

text \<open>
  C2, as amended. The claim asks for a \<open>ConfigurationError\<close> when the secret key is unset
  or empty. \<open>create_access_token\<close> does not look at the key: for every key, the empty one
  included, its outcome is the outcome of \<open>jwt.encode\<close> on the data with \<open>exp\<close> added,
  under that key and \<open>ALGORITHM\<close>; its one failure of its own, the \<open>OverflowError\<close> of
  an \<open>exp\<close> out of range, does not depend on the key. The key the module binds is a
  constant, and not empty.
\<close>

theorem no_key_check:
  "create_access_token enc key iat data dl =
     (if in_datetime_range (iat + (case dl of Some x \<Rightarrow> if x \<noteq> 0 then x else seconds 900 | None \<Rightarrow> seconds 900))
      then enc (AList.update ''exp''
                  (PyDatetime (iat + (case dl of Some x \<Rightarrow> if x \<noteq> 0 then x else seconds 900 | None \<Rightarrow> seconds 900)))
                  data) key ALGORITHM
      else Inl OverflowError) \<and>
   create_access_token enc [] iat data dl =
     (if in_datetime_range (iat + (case dl of Some x \<Rightarrow> if x \<noteq> 0 then x else seconds 900 | None \<Rightarrow> seconds 900))
      then enc (AList.update ''exp''
                  (PyDatetime (iat + (case dl of Some x \<Rightarrow> if x \<noteq> 0 then x else seconds 900 | None \<Rightarrow> seconds 900)))
                  data) [] ALGORITHM
      else Inl OverflowError) \<and>
   SECRET_KEY \<noteq> []"
  by (simp add: create_access_token_eq SECRET_KEY_def)

text \<open>
  Against C2 as stated: with the empty key, issuance returns a token.
\<close>

theorem empty_key_issues_token:
  "create_access_token stub_encode [] (seconds 1000) [(''sub'', PyStr ''b@x.com'')] None =
     stub_encode [(''sub'', PyStr ''b@x.com''), (''exp'', PyDatetime (seconds 1900))] [] ''HS256'' \<and>
   \<not> isl (create_access_token stub_encode [] (seconds 1000) [(''sub'', PyStr ''b@x.com'')] None)"
  by (simp add: create_access_token_eq ALGORITHM_def stub_encode_def seconds_def
      in_datetime_range_def datetime_min_def datetime_max_def)

section \<open>The failure branches of get_current_user\<close>

text \<open>
  C3. The claim asks that every failure of \<open>get_current_user\<close> is a 401 with the header
  \<open>WWW-Authenticate: Bearer\<close>, a failed token validation giving "Could not validate
  credentials". For the cookie value \<open>Bearer\<close>, with no space and no token, validation
  fails by an \<open>IndexError\<close>, which is neither of the two 401 exceptions. By
  \<open>get_current_user_failures\<close> it is the only failure that is not one of them.
\<close>

theorem bare_word_cookie_index_error:
  "get_current_user dec key d now \<lparr>cookies = c(''access_token'' \<mapsto> ''Bearer'')\<rparr>
     = Inl IndexError \<and>
   IndexError \<noteq> credentials_exception \<and> IndexError \<noteq> not_authenticated"
  by (simp add: get_current_user_def get_current_user_try_def index1_def
      credentials_exception_def not_authenticated_def)

section \<open>Issuance, validation and expiry\<close>




text \<open>
  C5, as amended. The claim speaks of every \<open>ttl\<close>; a \<open>ttl\<close> of zero is replaced by
  the default of 15 minutes (C10), so its token is still valid once more than zero seconds
  have passed. What holds: for every subject and every \<open>ttl\<close> other than zero, at every
  instant later than issuance plus \<open>ttl\<close>, validation of the issued token ends with the
  401 "Could not validate credentials", whatever the user store holds: the store takes no
  part in it. The token exists whenever issuance plus \<open>ttl\<close> is a \<open>datetime\<close>; otherwise
  issuance ends with \<open>OverflowError\<close> and there is no token to validate.
\<close>

theorem expired_token_rejected:
  assumes "pyjwt_contract enc dec" and "ttl \<noteq> 0" and "iat + ttl < now"
  shows "(in_datetime_range (iat + ttl) \<longrightarrow>
            (\<exists>tok. create_access_token enc key iat [(''sub'', PyStr s)] (Some ttl) = Inr tok \<and>
               get_current_user_try dec key now (''Bearer '' @ tok) = Inl credentials_exception \<and>
               get_current_user dec key d now
                   \<lparr>cookies = c(''access_token'' \<mapsto> ''Bearer '' @ tok)\<rparr>
                 = Inl credentials_exception)) \<and>
         (\<not> in_datetime_range (iat + ttl) \<longrightarrow>
            create_access_token enc key iat [(''sub'', PyStr s)] (Some ttl) = Inl OverflowError)"
proof (intro conjI impI)
  assume rg: "in_datetime_range (iat + ttl)"
  have r: "in_datetime_range
             (iat + (case Some ttl of Some x \<Rightarrow> if x \<noteq> 0 then x else seconds 900
                     | None \<Rightarrow> seconds 900))"
    using assms(2) rg by simp
  have le: "numeric_date (iat + ttl) \<le> numeric_date now"
    using assms(3) by (intro numeric_date_mono) simp
  from issued [OF assms(1) r, of key s] assms(2) le
  obtain tok where tok: "create_access_token enc key iat [(''sub'', PyStr s)] (Some ttl) = Inr tok"
    and ns: "CHR '' '' \<notin> set tok"
    and dec: "dec tok key [ALGORITHM] now = Inl ExpiredSignatureError"
    by auto
  have tr: "get_current_user_try dec key now (''Bearer '' @ tok) = Inl credentials_exception"
    by (subst try_bearer [OF ns]) (simp add: dec)
  have "get_current_user dec key d now \<lparr>cookies = c(''access_token'' \<mapsto> ''Bearer '' @ tok)\<rparr> =
          Inl credentials_exception"
    by (subst current_user_cookie) (use tr in simp_all)
  with tok tr
  show "\<exists>tok. create_access_token enc key iat [(''sub'', PyStr s)] (Some ttl) = Inr tok \<and>
               get_current_user_try dec key now (''Bearer '' @ tok) = Inl credentials_exception \<and>
               get_current_user dec key d now
                   \<lparr>cookies = c(''access_token'' \<mapsto> ''Bearer '' @ tok)\<rparr>
                 = Inl credentials_exception"
    by blast
next
  assume "\<not> in_datetime_range (iat + ttl)"
  with assms(2)
  show "create_access_token enc key iat [(''sub'', PyStr s)] (Some ttl) = Inl OverflowError"
    by (simp add: create_access_token_eq)
qed

text \<open>
  The theorem with the stand-in library: a \<open>ttl\<close> of 60 seconds, validated 61 seconds
  after issuance.
\<close>

theorem expired_token_rejected_witness:
  "pyjwt_contract stub_encode stub_decode \<and> seconds 60 \<noteq> 0 \<and>
   seconds 1000 + seconds 60 < seconds 1061 \<and>
   in_datetime_range (seconds 1000 + seconds 60) \<and>
   (\<exists>tok. create_access_token stub_encode SECRET_KEY (seconds 1000)
            [(''sub'', PyStr ''b@x.com'')] (Some (seconds 60)) = Inr tok \<and>
          get_current_user_try stub_decode SECRET_KEY (seconds 1061) (''Bearer '' @ tok)
            = Inl credentials_exception \<and>
          get_current_user stub_decode SECRET_KEY [bob] (seconds 1061)
            \<lparr>cookies = [''access_token'' \<mapsto> ''Bearer '' @ tok]\<rparr> = Inl credentials_exception)"
proof -
  have a: "seconds 60 \<noteq> 0" "seconds 1000 + seconds 60 < seconds 1061"
    by (simp_all add: seconds_def)
  have b: "in_datetime_range (seconds 1000 + seconds 60)"
    by (simp add: seconds_def in_datetime_range_def datetime_min_def datetime_max_def)
  from expired_token_rejected [OF stub_contract a, where key = SECRET_KEY
      and s = "''b@x.com''" and d = "[bob]" and c = Map.empty]
    stub_contract a b
  show ?thesis by simp
qed

text \<open>
  Against C5 as stated: a token issued with a \<open>ttl\<close> of zero, validated one second
  later, is accepted.
\<close>

theorem zero_ttl_token_outlives_ttl:
  "get_current_user_try stub_decode SECRET_KEY (seconds 1001)
     (''Bearer '' @ projr (create_access_token stub_encode SECRET_KEY (seconds 1000)
                             [(''sub'', PyStr ''b@x.com'')] (Some 0)))
     = Inr (PyStr ''b@x.com'') \<and>
   get_current_user stub_decode SECRET_KEY [bob] (seconds 1001)
     \<lparr>cookies = [''access_token'' \<mapsto>
        ''Bearer '' @ projr (create_access_token stub_encode SECRET_KEY (seconds 1000)
                               [(''sub'', PyStr ''b@x.com'')] (Some 0))]\<rparr>
     = Inr bob"
  by (simp add: run_simps)

section \<open>The sub claim\<close>

text \<open>
  C6, as amended. The claim asks that \<open>sub\<close> be present and not empty. The code tests
  \<open>email is None\<close> only. What holds, for a cookie whose token field \<open>jwt.decode\<close>
  accepts: when the payload has no \<open>sub\<close> claim, or a null one, validation and
  \<open>get_current_user\<close> end with the 401 "Could not validate credentials"; when \<open>sub\<close> is
  the empty string, validation yields it, and \<open>get_current_user\<close> looks it up in the user
  store as any other subject.
\<close>

theorem missing_sub_rejected:
  assumes "index1 (split_str CHR '' '' token) = Inr t"
    and "dec t key [ALGORITHM] now = Inr p"
  shows "(map_of p ''sub'' = None \<or> map_of p ''sub'' = Some PyNone \<longrightarrow>
            get_current_user_try dec key now token = Inl credentials_exception \<and>
            get_current_user dec key d now \<lparr>cookies = c(''access_token'' \<mapsto> token)\<rparr>
              = Inl credentials_exception) \<and>
         (map_of p ''sub'' = Some (PyStr []) \<longrightarrow>
            get_current_user_try dec key now token = Inr (PyStr []) \<and>
            get_current_user dec key d now \<lparr>cookies = c(''access_token'' \<mapsto> token)\<rparr>
              = (case get_user_by_email d (PyStr []) of
                   None \<Rightarrow> Inl credentials_exception
                 | Some u \<Rightarrow> Inr u))"
proof -
  have ne: "token \<noteq> []"
    using assms(1) by (auto simp: index1_def)
  have tr: "get_current_user_try dec key now token =
              (if dict_get p ''sub'' = PyNone then Inl credentials_exception
               else Inr (dict_get p ''sub''))"
    by (simp add: try_decoded [OF assms(1)] assms(2))
  show ?thesis
    by (auto simp: current_user_cookie [OF ne] tr dict_get_def)
qed

text \<open>
  The theorem with the stand-in library, for a token issued from empty data: its payload
  holds \<open>exp\<close> alone.
\<close>

theorem missing_sub_rejected_witness:
  "index1 (split_str CHR '' ''
     (''Bearer '' @ projr (create_access_token stub_encode SECRET_KEY (seconds 1000) [] None)))
     = Inr (projr (create_access_token stub_encode SECRET_KEY (seconds 1000) [] None)) \<and>
   stub_decode (projr (create_access_token stub_encode SECRET_KEY (seconds 1000) [] None))
     SECRET_KEY [ALGORITHM] (seconds 1000) = Inr [(''exp'', PyInt 1900)] \<and>
   map_of [(''exp'', PyInt 1900)] ''sub'' = None \<and>
   get_current_user_try stub_decode SECRET_KEY (seconds 1000)
     (''Bearer '' @ projr (create_access_token stub_encode SECRET_KEY (seconds 1000) [] None))
     = Inl credentials_exception \<and>
   get_current_user stub_decode SECRET_KEY [bob] (seconds 1000)
     \<lparr>cookies = [''access_token'' \<mapsto>
        ''Bearer '' @ projr (create_access_token stub_encode SECRET_KEY (seconds 1000) [] None)]\<rparr>
     = Inl credentials_exception"
proof -
  let ?tok = "projr (create_access_token stub_encode SECRET_KEY (seconds 1000) [] None)"
  have a: "index1 (split_str CHR '' '' (''Bearer '' @ ?tok)) = Inr ?tok"
    by (simp add: index1_def stub_issue stub_split seconds_def in_datetime_range_def
        datetime_min_def datetime_max_def)
  have b: "stub_decode ?tok SECRET_KEY [ALGORITHM] (seconds 1000) = Inr [(''exp'', PyInt 1900)]"
    by (simp add: stub_issue stub_decode_encode seconds_def numeric_date_def
        in_datetime_range_def datetime_min_def datetime_max_def)
  from missing_sub_rejected [where dec = stub_decode and key = SECRET_KEY and now = "seconds 1000"
      and token = "''Bearer '' @ ?tok" and t = ?tok and p = "[(''exp'', PyInt 1900)]"
      and d = "[bob]" and c = Map.empty, OF a b] a b
  show ?thesis by simp
qed

text \<open>
  Against C6 as stated: a token whose \<open>sub\<close> is the empty string passes validation, and
  authenticates the user whose email is the empty string.
\<close>

theorem empty_sub_accepted:
  "get_current_user_try stub_decode SECRET_KEY (seconds 1000)
     (''Bearer '' @ projr (create_access_token stub_encode SECRET_KEY (seconds 1000)
                             [(''sub'', PyStr '''')] None))
     = Inr (PyStr '''') \<and>
   get_current_user stub_decode SECRET_KEY [ghost] (seconds 1000)
     \<lparr>cookies = [''access_token'' \<mapsto>
        ''Bearer '' @ projr (create_access_token stub_encode SECRET_KEY (seconds 1000)
                               [(''sub'', PyStr '''')] None)]\<rparr>
     = Inr ghost"
  by (simp add: run_simps ghost_def)

section \<open>authenticate_user\<close>

text \<open>
  C7. \<open>authenticate_user\<close> returns a user exactly when \<open>get_user_by_email\<close> finds it
  for that email and the password verifies against its stored hash, and \<open>None\<close> exactly
  when no row has that email or the password does not verify; a user it returns is a row of
  the table with that email. After \<open>create_user\<close> with password \<open>p\<close> on a table that had no
  row with that email, with a hasher for which \<open>p\<close> verifies against its hash and \<open>p'\<close>
  does not, authenticating with \<open>p\<close> returns the new row and with \<open>p'\<close> returns
  \<open>None\<close>.
\<close>

theorem authenticate_user_spec:
  "(authenticate_user vrf d mail pw = Some u \<longleftrightarrow>
      get_user_by_email d (PyStr mail) = Some u \<and> vrf pw (password u)) \<and>
   (authenticate_user vrf d mail pw = None \<longleftrightarrow>
      get_user_by_email d (PyStr mail) = None \<or>
      (\<exists>u'. get_user_by_email d (PyStr mail) = Some u' \<and> \<not> vrf pw (password u'))) \<and>
   (get_user_by_email d (PyStr mail) = Some u \<longrightarrow> u \<in> set d \<and> email u = mail) \<and>
   (get_user_by_email d (PyStr mail) = None \<longleftrightarrow> (\<forall>x\<in>set d. email x \<noteq> mail)) \<and>
   ((\<forall>x\<in>set d. email x \<noteq> mail) \<and> vrf p (hsh p) \<and> \<not> vrf p' (hsh p) \<longrightarrow>
      (case create_user hsh d uname mail p of
         (u0, d') \<Rightarrow>
           authenticate_user vrf d' mail p = Some u0 \<and>
           authenticate_user vrf d' mail p' = None))"
proof -
  have 1: "authenticate_user vrf d mail pw = Some u \<longleftrightarrow>
      get_user_by_email d (PyStr mail) = Some u \<and> vrf pw (password u)"
    by (auto simp: authenticate_user_def split: option.splits)
  have 2: "authenticate_user vrf d mail pw = None \<longleftrightarrow>
      get_user_by_email d (PyStr mail) = None \<or>
      (\<exists>u'. get_user_by_email d (PyStr mail) = Some u' \<and> \<not> vrf pw (password u'))"
    by (auto simp: authenticate_user_def split: option.splits)
  have 3: "(\<forall>x\<in>set d. email x \<noteq> mail) \<and> vrf p (hsh p) \<and> \<not> vrf p' (hsh p) \<longrightarrow>
      (case create_user hsh d uname mail p of
         (u0, d') \<Rightarrow>
           authenticate_user vrf d' mail p = Some u0 \<and>
           authenticate_user vrf d' mail p' = None)"
    by (simp add: create_user_def Let_def authenticate_user_def get_user_by_email_fresh)
  from 1 2 3 get_user_by_email_Some [of d mail u] get_user_by_email_None [of d mail]
  show ?thesis by blast
qed

text \<open>
  The spec's scenario with the stand-in hasher: register \<open>bob\<close> with \<open>pw1\<close> on the
  empty table, then authenticate with \<open>pw1\<close>, with \<open>wrong\<close>, and with an unknown email.
\<close>

theorem authenticate_user_spec_witness:
  "get_user_by_email [] (PyStr ''b@x.com'') = None \<and>
   stub_verify ''pw1'' (stub_hash ''pw1'') \<and> \<not> stub_verify ''wrong'' (stub_hash ''pw1'') \<and>
   create_user stub_hash [] ''bob'' ''b@x.com'' ''pw1'' = (bob, [bob]) \<and>
   authenticate_user stub_verify [bob] ''b@x.com'' ''pw1'' = Some bob \<and>
   authenticate_user stub_verify [bob] ''b@x.com'' ''wrong'' = None \<and>
   get_user_by_email [bob] (PyStr ''b@x.com'') = Some bob \<and>
   authenticate_user stub_verify [bob] ''c@x.com'' ''pw1'' = None"
proof -
  have c: "create_user stub_hash [] ''bob'' ''b@x.com'' ''pw1'' = (bob, [bob])"
    by (simp add: create_user_def Let_def bob_def)
  have g: "get_user_by_email [bob] (PyStr ''b@x.com'') = Some bob"
    by (simp add: get_user_by_email_def bob_def)
  have n: "get_user_by_email [bob] (PyStr ''c@x.com'') = None"
    by (simp add: get_user_by_email_def bob_def)
  have e: "get_user_by_email [] (PyStr ''b@x.com'') = None"
    by (simp add: get_user_by_email_def)
  have v: "stub_verify ''pw1'' (stub_hash ''pw1'')" "\<not> stub_verify ''wrong'' (stub_hash ''pw1'')"
    by (simp_all add: stub_verify_def stub_hash_def)
  from authenticate_user_spec [of stub_verify "[]" "''b@x.com''" "''pw1''" bob "''pw1''"
      stub_hash "''wrong''" "''bob''"]
    authenticate_user_spec [of stub_verify "[bob]" "''c@x.com''" "''pw1''" bob "''pw1''"
      stub_hash "''wrong''" "''bob''"] c g n v e
  show ?thesis by simp
qed

section \<open>The default and the zero duration\<close>

text \<open>
  C8. Called without \<open>expires_delta\<close>, \<open>create_access_token\<close> hands \<open>jwt.encode\<close> the data
  with the claim \<open>exp\<close> set to the instant of the call plus 15 minutes (900 seconds), and
  returns what \<open>jwt.encode\<close> returns for it. No token is issued only when that instant
  is past \<open>datetime.max\<close>, so for a clock within the last 15 minutes of year 9999.
\<close>

theorem default_ttl_is_15_minutes:
  "create_access_token enc key iat data None =
     (if in_datetime_range (iat + timedelta_minutes 15)
      then enc (AList.update ''exp'' (PyDatetime (iat + timedelta_minutes 15)) data)
             key ALGORITHM
      else Inl OverflowError) \<and>
   dict_get (AList.update ''exp'' (PyDatetime (iat + timedelta_minutes 15)) data) ''exp''
       = PyDatetime (iat + seconds (15 * 60))"
  by (simp add: create_access_token_def datetime_add_def dict_get_update timedelta_minutes_def)

text \<open>
  C9. The leading word of the cookie value is never compared with \<open>Bearer\<close>: for every
  word \<open>X\<close> without a space and every rest, validation and \<open>get_current_user\<close> give on
  \<open>X\<close>, a space and the rest what they give on \<open>Bearer\<close>, a space and the rest.
\<close>

theorem prefix_word_ignored:
  assumes "CHR '' '' \<notin> set X"
  shows "get_current_user_try dec key now (X @ '' '' @ tok)
           = get_current_user_try dec key now (''Bearer '' @ tok) \<and>
         get_current_user dec key d now \<lparr>cookies = c(''access_token'' \<mapsto> X @ '' '' @ tok)\<rparr>
           = get_current_user dec key d now \<lparr>cookies = c(''access_token'' \<mapsto> ''Bearer '' @ tok)\<rparr>"
proof -
  have a: "index1 (split_str CHR '' '' (X @ CHR '' '' # tok)) = Inr (hd (split_str CHR '' '' tok))"
    using assms by (rule index1_prefixed)
  have b: "index1 (split_str CHR '' '' (''Bearer'' @ CHR '' '' # tok))
             = Inr (hd (split_str CHR '' '' tok))"
    by (rule index1_prefixed) simp
  have tr: "get_current_user_try dec key now (X @ CHR '' '' # tok)
              = get_current_user_try dec key now (''Bearer'' @ CHR '' '' # tok)"
    by (simp only: try_decoded [OF a] try_decoded [OF b])
  have "get_current_user dec key d now \<lparr>cookies = c(''access_token'' \<mapsto> X @ CHR '' '' # tok)\<rparr>
          = get_current_user dec key d now
              \<lparr>cookies = c(''access_token'' \<mapsto> ''Bearer'' @ CHR '' '' # tok)\<rparr>"
    by (rule current_user_cong) (simp_all only: tr, simp_all)
  with tr show ?thesis by simp
qed

text \<open>
  The theorem for the word \<open>Basic\<close> before a valid token of \<open>bob\<close>: both cookie values
  authenticate \<open>bob\<close>.
\<close>

theorem prefix_word_ignored_witness:
  "CHR '' '' \<notin> set ''Basic'' \<and>
   get_current_user stub_decode SECRET_KEY [bob] (seconds 1000)
     \<lparr>cookies = [''access_token'' \<mapsto>
        ''Basic'' @ '' '' @ projr (create_access_token stub_encode SECRET_KEY (seconds 1000)
                                   [(''sub'', PyStr ''b@x.com'')] None)]\<rparr>
     = Inr bob \<and>
   get_current_user stub_decode SECRET_KEY [bob] (seconds 1000)
     \<lparr>cookies = [''access_token'' \<mapsto>
        ''Bearer '' @ projr (create_access_token stub_encode SECRET_KEY (seconds 1000)
                               [(''sub'', PyStr ''b@x.com'')] None)]\<rparr>
     = Inr bob"
proof -
  have h: "CHR '' '' \<notin> set ''Basic''" by simp
  have r: "get_current_user stub_decode SECRET_KEY [bob] (seconds 1000)
     \<lparr>cookies = [''access_token'' \<mapsto>
        ''Bearer '' @ projr (create_access_token stub_encode SECRET_KEY (seconds 1000)
                               [(''sub'', PyStr ''b@x.com'')] None)]\<rparr>
     = Inr bob"
    by (simp add: run_simps)
  from prefix_word_ignored [OF h, of stub_decode SECRET_KEY "seconds 1000"
      "projr (create_access_token stub_encode SECRET_KEY (seconds 1000) [(''sub'', PyStr ''b@x.com'')] None)"
      "[bob]" Map.empty] r h
  show ?thesis by simp
qed

text \<open>
  C10. A zero \<open>expires_delta\<close> is falsy, so the call behaves as the call without the
  argument: the \<open>exp\<close> claim is the instant of the call plus 15 minutes, which lies after
  the call.
\<close>

theorem zero_delta_is_default:
  "create_access_token enc key iat data (Some 0) = create_access_token enc key iat data None
   \<and> create_access_token enc key iat data (Some 0) =
       (if in_datetime_range (iat + seconds (15 * 60))
        then enc (AList.update ''exp'' (PyDatetime (iat + seconds (15 * 60))) data)
               key ALGORITHM
        else Inl OverflowError)
   \<and> iat < iat + timedelta_minutes 15"
  by (simp add: create_access_token_def datetime_add_def timedelta_minutes_def seconds_def)

end
